theory Spec2Isabelle
  imports Main
begin

section \<open>The server configuration module \<^verbatim>\<open>app/gunicorn.conf.py\<close>\<close>

text \<open>
  The module is executed once, top to bottom, when the server starts. Its assignments
  build the option table; two of them read the process environment and convert what they
  find with \<^verbatim>\<open>int\<close>. Three callbacks log a fixed line each.

  What the module takes from outside is made a parameter of the model:
  \<^item> the process environment, a map from variable names to strings;
  \<^item> the host: the result of the operating system's CPU query (\<^verbatim>\<open>os.cpu_count()\<close>),
    which is a number or nothing, and the interpreter's bound on the number of digits
    \<^verbatim>\<open>int\<close> converts (\<^verbatim>\<open>sys.get_int_max_str_digits()\<close>, where 0 is no bound);
  \<^item> the logger carried by the object a callback receives: whether it is disabled, its
    level, its filters and the lines it has made so far.

  Characters are 8-bit code points; strings holding code points above 255 are outside the
  model.
\<close>

subsection \<open>Values and errors of the host language\<close>

datatype py_error = ValueError | TypeError | NotImplementedError | OtherError string

datatype py_value = PyNone | PyInt int | PyStr string

subsection \<open>The host\<close>

record host =
  os_cpu_count :: "nat option"
  int_max_str_digits :: nat

subsection \<open>\<^verbatim>\<open>int\<close> on a string\<close>

text \<open>
  \<^verbatim>\<open>int(s)\<close> in base ten skips white space on both sides, takes one optional sign and
  then decimal digits, where single underscores may stand between digits. Anything else
  raises \<^verbatim>\<open>ValueError\<close>, and so does a numeral of more than 640 digits that has more
  digits than the interpreter's bound, when there is one.
\<close>

definition is_space :: "char \<Rightarrow> bool" where
  "is_space c = (of_char c \<in> {9::nat, 10, 11, 12, 13, 32, 133, 160})"

definition is_digit :: "char \<Rightarrow> bool" where
  "is_digit c = (48 \<le> (of_char c :: nat) \<and> (of_char c :: nat) \<le> 57)"

definition digit_val :: "char \<Rightarrow> int" where
  "digit_val c = int (of_char c) - 48"

text \<open>
  The digit scan: \<open>prev\<close> is the character read last, \<open>acc\<close> the value and \<open>k\<close> the number
  of digits so far. It stops at the first character that is neither a digit nor an
  underscore and gives back the rest.
\<close>

fun scan_digits :: "char \<Rightarrow> int \<Rightarrow> nat \<Rightarrow> string \<Rightarrow> (int \<times> nat \<times> string) option" where
  "scan_digits prev acc k [] = (if prev = CHR ''_'' then None else Some (acc, k, []))"
| "scan_digits prev acc k (c # cs) =
     (if is_digit c then scan_digits c (acc * 10 + digit_val c) (Suc k) cs
      else if c = CHR ''_'' then
        (if prev = CHR ''_'' then None else scan_digits c acc k cs)
      else if prev = CHR ''_'' then None
      else Some (acc, k, c # cs))"

definition over_limit :: "nat \<Rightarrow> nat \<Rightarrow> bool" where
  "over_limit max_digits k = (640 < k \<and> 0 < max_digits \<and> max_digits < k)"

definition py_int_str :: "nat \<Rightarrow> string \<Rightarrow> int option" where
  "py_int_str max_digits s =
     (let s1 = dropWhile is_space s;
          neg = (s1 \<noteq> [] \<and> hd s1 = CHR ''-'');
          s2 = (if s1 \<noteq> [] \<and> (hd s1 = CHR ''-'' \<or> hd s1 = CHR ''+'') then tl s1 else s1)
      in if s2 = [] then None
         else if is_digit (hd s2) then
           (case scan_digits (hd s2) (digit_val (hd s2)) 1 (tl s2) of
              None \<Rightarrow> None
            | Some (v, k, rest) \<Rightarrow>
                if dropWhile is_space rest = [] then
                  (if over_limit max_digits k then None
                   else Some (if neg then - v else v))
                else None)
         else None)"

text \<open>\<^verbatim>\<open>int(x)\<close> on a value: an integer is returned as it is, a string is parsed.\<close>

fun int_py :: "host \<Rightarrow> py_value \<Rightarrow> py_error + int" where
  "int_py h (PyInt i) = Inr i"
| "int_py h (PyStr s) =
     (case py_int_str (int_max_str_digits h) s of
        None \<Rightarrow> Inl ValueError
      | Some i \<Rightarrow> Inr i)"
| "int_py h PyNone = Inl TypeError"

subsection \<open>The environment and the CPU count\<close>

type_synonym environ = "string \<rightharpoonup> string"

text \<open>\<^verbatim>\<open>os.getenv(key, default)\<close>: the variable's string when it is set, else the default.\<close>

definition getenv :: "environ \<Rightarrow> string \<Rightarrow> py_value \<Rightarrow> py_value" where
  "getenv env key dflt = (case env key of None \<Rightarrow> dflt | Some v \<Rightarrow> PyStr v)"

text \<open>
  \<^verbatim>\<open>multiprocessing.cpu_count()\<close>: the operating system's answer, and
  \<^verbatim>\<open>NotImplementedError\<close> when there is none.
\<close>

definition cpu_count :: "host \<Rightarrow> py_error + nat" where
  "cpu_count h = (case os_cpu_count h of None \<Rightarrow> Inl NotImplementedError | Some n \<Rightarrow> Inr n)"

subsection \<open>The option table\<close>

record server_config =
  bind :: string
  backlog :: int
  workers :: int
  worker_class :: string
  threads :: int
  worker_connections :: int
  timeout :: int
  keepalive :: int
  limit_request_line :: int
  limit_request_fields :: int
  limit_request_field_size :: int
  proc_name :: string
  daemon :: bool
  pidfile :: py_value
  umask :: int
  user :: py_value
  group :: py_value
  tmp_upload_dir :: py_value
  accesslog :: string
  errorlog :: string
  loglevel :: string
  access_log_format :: string

text \<open>
  The module's assignments in their order. The default of \<^verbatim>\<open>GUNICORN_WORKERS\<close> is an
  argument of \<^verbatim>\<open>os.getenv\<close>, so the CPU count is asked for before the environment is
  looked at, whether the variable is set or not. The first error ends the run.
\<close>

definition load_config :: "environ \<Rightarrow> host \<Rightarrow> py_error + server_config" where
  \<open>load_config env h =
     (case cpu_count h of
        Inl e \<Rightarrow> Inl e
      | Inr n \<Rightarrow>
         (case int_py h (getenv env ''GUNICORN_WORKERS'' (PyInt (int n * 2 + 1))) of
            Inl e \<Rightarrow> Inl e
          | Inr w \<Rightarrow>
             (case int_py h (getenv env ''GUNICORN_THREADS'' (PyInt 2)) of
                Inl e \<Rightarrow> Inl e
              | Inr t \<Rightarrow>
                 Inr \<lparr> bind = ''0.0.0.0:5000'',
                       backlog = 2048,
                       workers = w,
                       worker_class = ''gthread'',
                       threads = t,
                       worker_connections = 1000,
                       timeout = 30,
                       keepalive = 2,
                       limit_request_line = 4096,
                       limit_request_fields = 100,
                       limit_request_field_size = 8190,
                       proc_name = ''fastfood_gunicorn'',
                       daemon = False,
                       pidfile = PyNone,
                       umask = 0,
                       user = PyNone,
                       group = PyNone,
                       tmp_upload_dir = PyNone,
                       accesslog = ''-'',
                       errorlog = ''-'',
                       loglevel = ''info'',
                       access_log_format =
                         ''%(h)s %(l)s %(u)s %(t)s "%(r)s" %(s)s %(b)s "%(f)s" "%(a)s"'' \<rparr>)))\<close>

subsection \<open>The access-log format\<close>

text \<open>
  The server fills the format with the \<^verbatim>\<open>%\<close> operator from a table of request
  attributes. \<open>format_keys\<close> reads the keys \<^verbatim>\<open>%(key)\<close> off a format in their order,
  for formats like the module's, where every key is closed and holds no parenthesis;
  \<open>field_of\<close> is the server's documented meaning of the keys used here.
\<close>

datatype fmt_state = Text | Percent | Key string

fun format_keys :: "fmt_state \<Rightarrow> string \<Rightarrow> string list" where
  "format_keys st [] = []"
| "format_keys Text (c # cs) =
     (if c = CHR ''%'' then format_keys Percent cs else format_keys Text cs)"
| "format_keys Percent (c # cs) =
     (if c = CHR ''('' then format_keys (Key []) cs else format_keys Text cs)"
| "format_keys (Key k) (c # cs) =
     (if c = CHR '')'' then k # format_keys Text cs else format_keys (Key (k @ [c])) cs)"

datatype access_field =
  ClientIP | RemoteLogname | UserName | Timestamp | RequestLine
  | Status | Bytes | Referer | UserAgent

definition field_of :: "string \<Rightarrow> access_field option" where
  "field_of k = map_of
     [(''h'', ClientIP), (''l'', RemoteLogname), (''u'', UserName), (''t'', Timestamp),
      (''r'', RequestLine), (''s'', Status), (''b'', Bytes), (''f'', Referer),
      (''a'', UserAgent)] k"

subsection \<open>The lifecycle callbacks\<close>

text \<open>
  The server hands each callback one of its own objects, whose attribute \<^verbatim>\<open>log\<close> is the
  server's logger; its method \<^verbatim>\<open>info\<close> is that of the \<^verbatim>\<open>logging\<close> library. The logger
  is not part of the module. A line of the model is a record the logger makes and hands to
  its handlers; what the handlers write is outside the model. Whatever else the object
  holds is the extension of the record.
\<close>

datatype level = DEBUG | INFO | WARNING | ERROR | CRITICAL

fun level_no :: "level \<Rightarrow> int" where
  "level_no DEBUG = 10"
| "level_no INFO = 20"
| "level_no WARNING = 30"
| "level_no ERROR = 40"
| "level_no CRITICAL = 50"

type_synonym log_line = "level \<times> string"

text \<open>
  The state of a logger: the flag \<^verbatim>\<open>disabled\<close>, the level up to which the whole
  library is switched off (\<^verbatim>\<open>manager.disable\<close>), the level in force for the logger
  (\<^verbatim>\<open>getEffectiveLevel()\<close>), the verdict of its filters on a record, and the lines made
  so far.
\<close>

record logger =
  disabled :: bool
  manager_disable :: int
  effective_level :: int
  passes_filters :: "log_line \<Rightarrow> bool"
  lines :: "log_line list"

text \<open>\<^verbatim>\<open>Logger.isEnabledFor(level)\<close>.\<close>

definition is_enabled_for :: "logger \<Rightarrow> level \<Rightarrow> bool" where
  "is_enabled_for lg lvl =
     (if disabled lg then False
      else if level_no lvl \<le> manager_disable lg then False
      else effective_level lg \<le> level_no lvl)"

text \<open>\<^verbatim>\<open>Logger.handle(record)\<close>: the record goes on unless a filter drops it.\<close>

definition handle :: "logger \<Rightarrow> log_line \<Rightarrow> logger" where
  "handle lg r =
     (if disabled lg then lg
      else if passes_filters lg r then lg\<lparr>lines := lines lg @ [r]\<rparr>
      else lg)"

text \<open>\<^verbatim>\<open>Logger.info(msg)\<close>: a record at level \<open>INFO\<close>, when the logger is enabled for it.\<close>

definition info :: "logger \<Rightarrow> string \<Rightarrow> logger" where
  "info lg m = (if is_enabled_for lg INFO then handle lg (INFO, m) else lg)"

record py_object =
  log :: logger

text \<open>A callback gives back what the function returns and the object after the call.\<close>

definition when_ready :: "'a py_object_scheme \<Rightarrow> py_value \<times> 'a py_object_scheme" where
  "when_ready server =
     (PyNone,
      server\<lparr>log := info (log server) ''FastFood Ordering System is ready to serve requests''\<rparr>)"

definition worker_int :: "'a py_object_scheme \<Rightarrow> py_value \<times> 'a py_object_scheme" where
  "worker_int worker =
     (PyNone, worker\<lparr>log := info (log worker) ''Worker received INT or QUIT signal''\<rparr>)"

definition worker_abort :: "'a py_object_scheme \<Rightarrow> py_value \<times> 'a py_object_scheme" where
  "worker_abort worker =
     (PyNone, worker\<lparr>log := info (log worker) ''Worker received SIGABRT signal''\<rparr>)"

text \<open>The lines a call has added to the object's logger.\<close>

definition logged :: "'a py_object_scheme \<Rightarrow> 'a py_object_scheme \<Rightarrow> log_line list" where
  "logged before after = drop (length (lines (log before))) (lines (log after))"

text \<open>\<^verbatim>\<open>sub in s\<close> on strings.\<close>

fun contains :: "string \<Rightarrow> string \<Rightarrow> bool" where
  "contains sub [] = (sub = [])"
| "contains sub (c # cs) = (take (length sub) (c # cs) = sub \<or> contains sub cs)"

subsection \<open>Notions the statements use\<close>

text \<open>
  A variable leaves a count positive when it is unset (both defaults are positive) or when
  its string converts to a positive integer.
\<close>

definition positive_or_unset :: "nat \<Rightarrow> string option \<Rightarrow> bool" where
  "positive_or_unset max_digits x =
     (case x of
        None \<Rightarrow> True
      | Some v \<Rightarrow> (case py_int_str max_digits v of None \<Rightarrow> False | Some i \<Rightarrow> 0 < i))"

text \<open>A logger lets a record through when it is enabled for its level and no filter drops it.\<close>

definition emits :: "logger \<Rightarrow> log_line \<Rightarrow> bool" where
  "emits lg r = (if is_enabled_for lg (fst r) then passes_filters lg r else False)"

text \<open>
  Two loggers with no filter and nothing disabled, as the server sets them up: one at
  level \<open>INFO\<close>, which is the module's \<^verbatim>\<open>loglevel\<close>, and one at level \<open>WARNING\<close>, as
  when the server is started with \<^verbatim>\<open>--log-level warning\<close>.
\<close>

definition info_logger :: logger where
  "info_logger =
     \<lparr> disabled = False, manager_disable = 0, effective_level = 20,
       passes_filters = (\<lambda>r. True), lines = [] \<rparr>"

definition warning_logger :: logger where
  "warning_logger =
     \<lparr> disabled = False, manager_disable = 0, effective_level = 30,
       passes_filters = (\<lambda>r. True), lines = [] \<rparr>"

text \<open>
  The server's reading of a log destination: \<^verbatim>\<open>-\<close> is the standard stream (output for
  the access log, error for the error log), anything else names a file.
\<close>

datatype destination = StdStream | LogFile string

definition destination_of :: "string \<Rightarrow> destination" where
  "destination_of s = (if s = ''-'' then StdStream else LogFile s)"

text \<open>The value of a string of decimal digits.\<close>

definition decimal :: "string \<Rightarrow> int" where
  "decimal ds = foldl (\<lambda>a c. a * 10 + digit_val c) 0 ds"

text \<open>A machine with four CPUs and the interpreter's usual bound of 4300 digits.\<close>

definition host4 :: host where
  "host4 = \<lparr> os_cpu_count = Some 4, int_max_str_digits = 4300 \<rparr>"

section \<open>The conversion on plain numerals\<close>

text \<open>
  A non-empty string of decimal digits within the bound converts to the number it
  writes: the conversion agrees with the usual reading of a numeral.
\<close>

lemma digit_not_special:
  assumes "is_digit c"
  shows "c \<noteq> CHR ''_''" and "c \<noteq> CHR ''-''" and "c \<noteq> CHR ''+''" and "\<not> is_space c"
  using assms by (auto simp: is_digit_def is_space_def)

lemma scan_all_digits:
  "\<forall>c\<in>set cs. is_digit c \<Longrightarrow> prev \<noteq> CHR ''_'' \<Longrightarrow>
     scan_digits prev acc k cs
       = Some (foldl (\<lambda>a c. a * 10 + digit_val c) acc cs, k + length cs, [])"
proof (induction cs arbitrary: prev acc k)
  case Nil
  then show ?case by simp
next
  case (Cons c cs)
  then have "is_digit c" and "c \<noteq> CHR ''_''" by (auto dest: digit_not_special(1))
  then show ?case using Cons by simp
qed

lemma py_int_str_plain:
  assumes "ds \<noteq> []" and "\<forall>c\<in>set ds. is_digit c" and "\<not> over_limit m (length ds)"
  shows "py_int_str m ds = Some (decimal ds)"
proof -
  obtain d ds' where ds: "ds = d # ds'" using assms(1) by (cases ds) auto
  have d: "is_digit d" and ds': "\<forall>c\<in>set ds'. is_digit c" using assms(2) ds by auto
  have sp: "dropWhile is_space ds = ds"
    using d ds digit_not_special(4) by simp
  have sc: "scan_digits d (digit_val d) 1 ds'
      = Some (foldl (\<lambda>a c. a * 10 + digit_val c) (digit_val d) ds', 1 + length ds', [])"
    using scan_all_digits [OF ds'] digit_not_special(1) [OF d] by blast
  have "decimal ds = foldl (\<lambda>a c. a * 10 + digit_val c) (digit_val d) ds'"
    by (simp add: decimal_def ds)
  then show ?thesis
    using sp sc d assms(3) digit_not_special(2,3) [OF d]
    by (simp add: py_int_str_def ds)
qed

lemma parse_4: "py_int_str m ''4'' = Some 4"
  by (simp add: py_int_str_def is_space_def is_digit_def digit_val_def over_limit_def)

lemma parse_8: "py_int_str m ''8'' = Some 8"
  by (simp add: py_int_str_def is_space_def is_digit_def digit_val_def over_limit_def)

lemma parse_0: "py_int_str m ''0'' = Some 0"
  by (simp add: py_int_str_def is_space_def is_digit_def digit_val_def over_limit_def)

section \<open>Properties of the configuration loader\<close>

subsection \<open>Auxiliary facts\<close>

lemma getenv_unset: "env k = None \<Longrightarrow> getenv env k d = d"
  by (simp add: getenv_def)

lemma getenv_set: "env k = Some v \<Longrightarrow> getenv env k d = PyStr v"
  by (simp add: getenv_def)

lemma load_config_InrD:
  "load_config env h = Inr cfg \<Longrightarrow>
     \<exists>n w t. os_cpu_count h = Some n
       \<and> int_py h (getenv env ''GUNICORN_WORKERS'' (PyInt (int n * 2 + 1))) = Inr w
       \<and> int_py h (getenv env ''GUNICORN_THREADS'' (PyInt 2)) = Inr t
       \<and> workers cfg = w \<and> threads cfg = t"
  by (cases "os_cpu_count h") (auto simp: load_config_def cpu_count_def split: sum.splits)

lemma load_empty_env:
  "load_config (map_of []) host4 = Inr (projr (load_config (map_of []) host4))"
  by (simp add: load_config_def cpu_count_def getenv_def host4_def)

lemma format_keys_literal:
  \<open>map field_of
     (format_keys Text ''%(h)s %(l)s %(u)s %(t)s "%(r)s" %(s)s %(b)s "%(f)s" "%(a)s"'')
    = [Some ClientIP, Some RemoteLogname, Some UserName, Some Timestamp, Some RequestLine,
       Some Status, Some Bytes, Some Referer, Some UserAgent]\<close>
  by code_simp

subsection \<open>Defaults\<close>

text \<open>
  Claim C1. When neither \<^verbatim>\<open>GUNICORN_WORKERS\<close> nor \<^verbatim>\<open>GUNICORN_THREADS\<close> is set, the
  module loads, with twice the detected CPU count plus one as the number of workers and
  two threads, whatever the detected CPU count \<open>n\<close> is.
\<close>

theorem C1_defaults:
  assumes "env ''GUNICORN_WORKERS'' = None" and "env ''GUNICORN_THREADS'' = None"
    and "os_cpu_count h = Some n"
  shows "\<exists>cfg. load_config env h = Inr cfg
           \<and> workers cfg = 2 * int n + 1 \<and> threads cfg = 2"
  using assms by (simp add: load_config_def cpu_count_def getenv_unset)

text \<open>The empty environment on a machine with four CPUs: nine workers, two threads.\<close>

theorem C1_defaults_witness:
  "(map_of [] :: environ) ''GUNICORN_WORKERS'' = None
   \<and> (map_of [] :: environ) ''GUNICORN_THREADS'' = None
   \<and> os_cpu_count host4 = Some 4
   \<and> (\<exists>cfg. load_config (map_of []) host4 = Inr cfg
          \<and> workers cfg = 9 \<and> threads cfg = 2)"
  using C1_defaults [of "map_of []" host4 4] by (simp add: host4_def)

subsection \<open>Values from the environment\<close>

text \<open>
  Claim C2. When both variables are set to strings that \<^verbatim>\<open>int\<close> converts, the module
  loads and the numbers of workers and threads are the converted integers, for every
  detected CPU count.
\<close>

theorem C2_env_values:
  assumes "env ''GUNICORN_WORKERS'' = Some w" and "env ''GUNICORN_THREADS'' = Some t"
    and "py_int_str (int_max_str_digits h) w = Some a"
    and "py_int_str (int_max_str_digits h) t = Some b"
    and "os_cpu_count h = Some n"
  shows "\<exists>cfg. load_config env h = Inr cfg \<and> workers cfg = a \<and> threads cfg = b"
  using assms by (simp add: load_config_def cpu_count_def getenv_set)

text \<open>The environment \<^verbatim>\<open>GUNICORN_WORKERS=4\<close>, \<^verbatim>\<open>GUNICORN_THREADS=8\<close>.\<close>

theorem C2_env_values_witness:
  "map_of [(''GUNICORN_WORKERS'', ''4''), (''GUNICORN_THREADS'', ''8'')] ''GUNICORN_WORKERS''
     = Some ''4''
   \<and> map_of [(''GUNICORN_WORKERS'', ''4''), (''GUNICORN_THREADS'', ''8'')] ''GUNICORN_THREADS''
     = Some ''8''
   \<and> py_int_str (int_max_str_digits host4) ''4'' = Some 4
   \<and> py_int_str (int_max_str_digits host4) ''8'' = Some 8
   \<and> os_cpu_count host4 = Some 4
   \<and> (\<exists>cfg. load_config
              (map_of [(''GUNICORN_WORKERS'', ''4''), (''GUNICORN_THREADS'', ''8'')]) host4
            = Inr cfg
          \<and> workers cfg = 4 \<and> threads cfg = 8)"
  using C2_env_values
      [of "map_of [(''GUNICORN_WORKERS'', ''4''), (''GUNICORN_THREADS'', ''8'')]"
        "''4''" "''8''" host4 4 8 4]
    parse_4 parse_8
  by (simp add: host4_def)

subsection \<open>Bounds on the counts\<close>

text \<open>
  Claim C3, as stated, fails. The loader converts and does not check: with
  \<^verbatim>\<open>GUNICORN_THREADS=0\<close> the module loads and the number of threads is zero.
\<close>

theorem C3_counterexample:
  "\<not> isl (load_config (map_of [(''GUNICORN_THREADS'', ''0'')])
            \<lparr>os_cpu_count = Some 1, int_max_str_digits = 4300\<rparr>)
   \<and> \<not> 0 < threads (projr (load_config (map_of [(''GUNICORN_THREADS'', ''0'')])
                              \<lparr>os_cpu_count = Some 1, int_max_str_digits = 4300\<rparr>))"
  by (simp add: load_config_def cpu_count_def getenv_def parse_0)

text \<open>
  Claim C3, amended. In a configuration the loader has built, the number of workers is
  positive exactly when \<^verbatim>\<open>GUNICORN_WORKERS\<close> is unset or converts to a positive integer,
  and the number of threads is positive exactly when \<^verbatim>\<open>GUNICORN_THREADS\<close> is unset or
  converts to a positive integer.
\<close>

theorem C3_positive_counts:
  assumes "load_config env h = Inr cfg"
  shows "(0 < workers cfg
            \<longleftrightarrow> positive_or_unset (int_max_str_digits h) (env ''GUNICORN_WORKERS''))
       \<and> (0 < threads cfg
            \<longleftrightarrow> positive_or_unset (int_max_str_digits h) (env ''GUNICORN_THREADS''))"
proof -
  from assms obtain n w t where
    w: "int_py h (getenv env ''GUNICORN_WORKERS'' (PyInt (int n * 2 + 1))) = Inr w" and
    t: "int_py h (getenv env ''GUNICORN_THREADS'' (PyInt 2)) = Inr t" and
    c: "workers cfg = w" "threads cfg = t"
    using load_config_InrD by blast
  have "0 < w \<longleftrightarrow> positive_or_unset (int_max_str_digits h) (env ''GUNICORN_WORKERS'')"
    using w by (auto simp: getenv_def positive_or_unset_def split: option.splits)
  moreover
  have "0 < t \<longleftrightarrow> positive_or_unset (int_max_str_digits h) (env ''GUNICORN_THREADS'')"
    using t by (auto simp: getenv_def positive_or_unset_def split: option.splits)
  ultimately show ?thesis using c by simp
qed

text \<open>Eight threads from the environment and the default for four CPUs: both positive.\<close>

theorem C3_positive_counts_witness:
  "load_config (map_of [(''GUNICORN_THREADS'', ''8'')]) host4
     = Inr (projr (load_config (map_of [(''GUNICORN_THREADS'', ''8'')]) host4))
   \<and> 0 < workers (projr (load_config (map_of [(''GUNICORN_THREADS'', ''8'')]) host4))
   \<and> 0 < threads (projr (load_config (map_of [(''GUNICORN_THREADS'', ''8'')]) host4))"
proof -
  have l: "load_config (map_of [(''GUNICORN_THREADS'', ''8'')]) host4
     = Inr (projr (load_config (map_of [(''GUNICORN_THREADS'', ''8'')]) host4))"
    by (simp add: load_config_def cpu_count_def getenv_def parse_8 host4_def)
  show ?thesis
    using l C3_positive_counts [OF l] by (simp add: positive_or_unset_def parse_8)
qed

subsection \<open>Failure of the loader\<close>

text \<open>
  Claim C4, as stated, fails. The default number of workers is computed before the
  environment is read, so when the CPU count cannot be determined the module raises
  \<^verbatim>\<open>NotImplementedError\<close>, also with both variables set to numbers.
\<close>

theorem C4_counterexample:
  "load_config (map_of [(''GUNICORN_WORKERS'', ''4''), (''GUNICORN_THREADS'', ''8'')])
      \<lparr>os_cpu_count = None, int_max_str_digits = 4300\<rparr>
     = Inl NotImplementedError
   \<and> py_int_str 4300 ''4'' = Some 4 \<and> py_int_str 4300 ''8'' = Some 8"
  by (simp add: load_config_def cpu_count_def parse_4 parse_8)

text \<open>
  Claim C4, amended. The loader fails if and only if the CPU count cannot be determined or
  a variable that is set holds a string \<^verbatim>\<open>int\<close> does not convert. The first case raises
  \<^verbatim>\<open>NotImplementedError\<close>, the second \<^verbatim>\<open>ValueError\<close>, and there is no other error.
\<close>

theorem C4_failure_paths:
  "(isl (load_config env h) \<longleftrightarrow>
      os_cpu_count h = None
      \<or> (\<exists>v. env ''GUNICORN_WORKERS'' = Some v \<and> py_int_str (int_max_str_digits h) v = None)
      \<or> (\<exists>v. env ''GUNICORN_THREADS'' = Some v \<and> py_int_str (int_max_str_digits h) v = None))
   \<and> (load_config env h = Inl NotImplementedError \<longleftrightarrow> os_cpu_count h = None)
   \<and> (load_config env h = Inl ValueError \<longleftrightarrow>
        os_cpu_count h \<noteq> None
        \<and> ((\<exists>v. env ''GUNICORN_WORKERS'' = Some v
                 \<and> py_int_str (int_max_str_digits h) v = None)
           \<or> (\<exists>v. env ''GUNICORN_THREADS'' = Some v
                 \<and> py_int_str (int_max_str_digits h) v = None)))
   \<and> load_config env h \<noteq> Inl TypeError
   \<and> load_config env h \<noteq> Inl (OtherError s)"
  by (cases "os_cpu_count h"; cases "env ''GUNICORN_WORKERS''";
      cases "env ''GUNICORN_THREADS''")
     (auto simp: load_config_def cpu_count_def getenv_def split: option.splits)

subsection \<open>The fixed options\<close>

text \<open>
  Claim C7. Every configuration the loader builds, from any environment, binds to
  \<^verbatim>\<open>0.0.0.0:5000\<close> with backlog 2048, 1000 worker connections, a timeout of 30 and a
  keep-alive of 2 seconds, and the request limits 4096, 100 and 8190.
\<close>

theorem C7_fixed_options:
  assumes "load_config env h = Inr cfg"
  shows "bind cfg = ''0.0.0.0:5000'' \<and> backlog cfg = 2048 \<and> worker_connections cfg = 1000
       \<and> timeout cfg = 30 \<and> keepalive cfg = 2 \<and> limit_request_line cfg = 4096
       \<and> limit_request_fields cfg = 100 \<and> limit_request_field_size cfg = 8190"
  using assms by (auto simp: load_config_def split: sum.splits)

theorem C7_fixed_options_witness:
  "load_config (map_of []) host4 = Inr (projr (load_config (map_of []) host4))
   \<and> bind (projr (load_config (map_of []) host4)) = ''0.0.0.0:5000''
   \<and> backlog (projr (load_config (map_of []) host4)) = 2048
   \<and> worker_connections (projr (load_config (map_of []) host4)) = 1000
   \<and> timeout (projr (load_config (map_of []) host4)) = 30
   \<and> keepalive (projr (load_config (map_of []) host4)) = 2
   \<and> limit_request_line (projr (load_config (map_of []) host4)) = 4096
   \<and> limit_request_fields (projr (load_config (map_of []) host4)) = 100
   \<and> limit_request_field_size (projr (load_config (map_of []) host4)) = 8190"
  using load_empty_env C7_fixed_options [OF load_empty_env] by simp

subsection \<open>The logging options\<close>

text \<open>
  Claim C8. Every configuration the loader builds sends the access log and the error log
  to the standard streams (the value \<^verbatim>\<open>-\<close>), logs at level \<^verbatim>\<open>info\<close>, and has the one
  fixed access-log format, whose keys are in this order the client address, the remote
  logname, the user, the time, the request line, the status, the response length, the
  referer and the user agent.
\<close>

theorem C8_logging_options:
  assumes "load_config env h = Inr cfg"
  shows \<open>accesslog cfg = ''-'' \<and> errorlog cfg = ''-''
       \<and> destination_of (accesslog cfg) = StdStream
       \<and> destination_of (errorlog cfg) = StdStream
       \<and> loglevel cfg = ''info''
       \<and> access_log_format cfg
           = ''%(h)s %(l)s %(u)s %(t)s "%(r)s" %(s)s %(b)s "%(f)s" "%(a)s"''
       \<and> map field_of (format_keys Text (access_log_format cfg))
           = [Some ClientIP, Some RemoteLogname, Some UserName, Some Timestamp,
              Some RequestLine, Some Status, Some Bytes, Some Referer, Some UserAgent]\<close>
proof -
  have f: \<open>access_log_format cfg
      = ''%(h)s %(l)s %(u)s %(t)s "%(r)s" %(s)s %(b)s "%(f)s" "%(a)s"''\<close>
    using assms by (auto simp: load_config_def split: sum.splits)
  have "accesslog cfg = ''-''" "errorlog cfg = ''-''" "loglevel cfg = ''info''"
    using assms by (auto simp: load_config_def split: sum.splits)
  then show ?thesis using f format_keys_literal by (simp add: destination_of_def)
qed

theorem C8_logging_options_witness:
  \<open>load_config (map_of []) host4 = Inr (projr (load_config (map_of []) host4))
   \<and> accesslog (projr (load_config (map_of []) host4)) = ''-''
   \<and> errorlog (projr (load_config (map_of []) host4)) = ''-''
   \<and> loglevel (projr (load_config (map_of []) host4)) = ''info''
   \<and> map field_of
        (format_keys Text (access_log_format (projr (load_config (map_of []) host4))))
       = [Some ClientIP, Some RemoteLogname, Some UserName, Some Timestamp,
          Some RequestLine, Some Status, Some Bytes, Some Referer, Some UserAgent]\<close>
  using load_empty_env C8_logging_options [OF load_empty_env] by blast

section \<open>Properties of the lifecycle callbacks\<close>

lemma ready_contains:
  "contains ''ready to serve requests''
     ''FastFood Ordering System is ready to serve requests''"
  by code_simp

text \<open>What \<open>info\<close> does to the lines, and that it touches nothing else.\<close>

lemma lines_info:
  "lines (info lg m) = (if emits lg (INFO, m) then lines lg @ [(INFO, m)] else lines lg)"
  by (simp add: info_def handle_def emits_def is_enabled_for_def)

lemma emits_info: "emits (info lg m) r = emits lg r"
  by (simp add: info_def handle_def emits_def is_enabled_for_def)

lemma logged_info:
  "logged x (x\<lparr>log := info (log x) m\<rparr>)
     = (if emits (log x) (INFO, m) then [(INFO, m)] else [])"
  by (simp add: logged_def lines_info)

text \<open>
  On a logger that lets the record through, the lines tell which string \<open>info\<close> was
  given.
\<close>

lemma info_message_inj:
  assumes "emits lg (INFO, m)" and "info lg m = info lg m'"
  shows "m = m'"
proof -
  have "lines (info lg m) = lines (info lg m')" using assms(2) by simp
  then have "lines lg @ [(INFO, m)]
      = (if emits lg (INFO, m') then lines lg @ [(INFO, m')] else lines lg)"
    using assms(1) by (simp add: lines_info)
  then show ?thesis by (simp split: if_splits)
qed

lemma emits_info_logger: "fst r = INFO \<Longrightarrow> emits info_logger r"
  by (simp add: emits_def is_enabled_for_def info_logger_def)

lemma not_emits_warning_logger: "emits warning_logger (INFO, m) = False"
  by (simp add: emits_def is_enabled_for_def warning_logger_def)

text \<open>With the module's own log level the readiness line is made.\<close>

lemma when_ready_info_logger:
  "logged \<lparr>log = info_logger\<rparr> (snd (when_ready \<lparr>log = info_logger\<rparr>))
     = [(INFO, ''FastFood Ordering System is ready to serve requests'')]"
  by (simp add: when_ready_def logged_def lines_info emits_info_logger)

text \<open>\<open>contains\<close> is the substring relation.\<close>

lemma contains_iff: "contains sub s \<longleftrightarrow> (\<exists>ps ss. s = ps @ sub @ ss)"
proof (induction s)
  case Nil
  then show ?case by auto
next
  case (Cons c cs)
  show ?case
  proof
    assume "contains sub (c # cs)"
    then consider "take (length sub) (c # cs) = sub" | "contains sub cs" by auto
    then show "\<exists>ps ss. c # cs = ps @ sub @ ss"
    proof cases
      case 1
      then have "c # cs = [] @ sub @ drop (length sub) (c # cs)"
        by (metis append_Nil append_take_drop_id)
      then show ?thesis by blast
    next
      case 2
      then obtain ps ss where "cs = ps @ sub @ ss" using Cons.IH by blast
      then have "c # cs = (c # ps) @ sub @ ss" by simp
      then show ?thesis by blast
    qed
  next
    assume "\<exists>ps ss. c # cs = ps @ sub @ ss"
    then obtain ps ss where e: "c # cs = ps @ sub @ ss" by blast
    show "contains sub (c # cs)"
    proof (cases ps)
      case Nil
      then have "take (length sub) (c # cs) = sub" using e by simp
      then show ?thesis by simp
    next
      case (Cons p ps')
      then have "cs = ps' @ sub @ ss" using e by simp
      then have "contains sub cs" using Cons.IH by blast
      then show ?thesis by simp
    qed
  qed
qed

text \<open>
  Claim C5, as stated, fails. \<^verbatim>\<open>info\<close> makes a line only when the logger is enabled for
  the level: handed a server whose logger stands at level \<open>WARNING\<close>, \<open>when_ready\<close> adds
  no line.
\<close>

theorem C5_counterexample:
  "logged \<lparr>log = warning_logger\<rparr> (snd (when_ready \<lparr>log = warning_logger\<rparr>)) = []"
  by (simp add: when_ready_def logged_def lines_info not_emits_warning_logger)

text \<open>
  Claim C5, amended. There is one text, containing \<^verbatim>\<open>ready to serve requests\<close>, such
  that for every server object \<open>when_ready\<close> adds exactly one line, at level \<open>INFO\<close> and
  with that text, when the object's logger lets such a record through, and adds no line
  when it does not. The lines the logger held before stay.
\<close>

theorem C5_when_ready_line:
  "\<exists>m. contains ''ready to serve requests'' m
       \<and> logged server (snd (when_ready server))
           = (if emits (log server) (INFO, m) then [(INFO, m)] else [])
       \<and> lines (log (snd (when_ready server)))
           = lines (log server) @ logged server (snd (when_ready server))"
proof (rule exI [of _ "''FastFood Ordering System is ready to serve requests''"],
    intro conjI)
  show "contains ''ready to serve requests''
      ''FastFood Ordering System is ready to serve requests''"
    by (rule ready_contains)
  show "logged server (snd (when_ready server))
      = (if emits (log server)
              (INFO, ''FastFood Ordering System is ready to serve requests'')
         then [(INFO, ''FastFood Ordering System is ready to serve requests'')] else [])"
    by (simp add: when_ready_def logged_info)
  show "lines (log (snd (when_ready server)))
      = lines (log server) @ logged server (snd (when_ready server))"
    by (simp add: when_ready_def logged_def lines_info)
qed

text \<open>A server whose logger stands at level \<open>INFO\<close> gets its one line.\<close>

theorem C5_when_ready_line_witness:
  "\<exists>m. contains ''ready to serve requests'' m
       \<and> logged \<lparr>log = info_logger\<rparr> (snd (when_ready \<lparr>log = info_logger\<rparr>)) = [(INFO, m)]"
proof -
  obtain m where c: "contains ''ready to serve requests'' m"
    and l: "logged \<lparr>log = info_logger\<rparr> (snd (when_ready \<lparr>log = info_logger\<rparr>))
        = (if emits (log \<lparr>log = info_logger\<rparr>) (INFO, m) then [(INFO, m)] else [])"
    using C5_when_ready_line [of "\<lparr>log = info_logger\<rparr>"] by auto
  have "emits (log \<lparr>log = info_logger\<rparr>) (INFO, m)"
    by (simp add: emits_info_logger)
  with l have "logged \<lparr>log = info_logger\<rparr> (snd (when_ready \<lparr>log = info_logger\<rparr>))
      = [(INFO, m)]"
    by simp
  with c show ?thesis by (intro exI conjI)
qed

text \<open>
  Claim C6, as stated, fails, for the same reason: handed a worker whose logger stands at
  level \<open>WARNING\<close>, neither \<open>worker_int\<close> nor \<open>worker_abort\<close> adds a line.
\<close>

theorem C6_counterexample:
  "logged \<lparr>log = warning_logger\<rparr> (snd (worker_int \<lparr>log = warning_logger\<rparr>)) = []
   \<and> logged \<lparr>log = warning_logger\<rparr> (snd (worker_abort \<lparr>log = warning_logger\<rparr>)) = []"
  by (simp add: worker_int_def worker_abort_def logged_def lines_info
      not_emits_warning_logger)

text \<open>
  Claim C6, amended. There are two different lines at level \<open>INFO\<close> such that for all
  worker objects \<open>worker_int\<close> adds exactly the first when the object's logger lets it
  through and \<open>worker_abort\<close> adds exactly the second when the object's logger lets it
  through; a logger that does not let the line through gets no line.
\<close>

theorem C6_worker_lines:
  "\<exists>a b. a \<noteq> b \<and> fst a = INFO \<and> fst b = INFO
       \<and> logged w1 (snd (worker_int w1)) = (if emits (log w1) a then [a] else [])
       \<and> logged w2 (snd (worker_abort w2)) = (if emits (log w2) b then [b] else [])"
proof (rule exI [of _ "(INFO, ''Worker received INT or QUIT signal'')"],
    rule exI [of _ "(INFO, ''Worker received SIGABRT signal'')"], intro conjI)
  show "(INFO, ''Worker received INT or QUIT signal'')
      \<noteq> (INFO, ''Worker received SIGABRT signal'')"
    by simp
  show "fst (INFO, ''Worker received INT or QUIT signal'') = INFO"
    and "fst (INFO, ''Worker received SIGABRT signal'') = INFO"
    by simp_all
  show "logged w1 (snd (worker_int w1))
      = (if emits (log w1) (INFO, ''Worker received INT or QUIT signal'')
         then [(INFO, ''Worker received INT or QUIT signal'')] else [])"
    by (simp add: worker_int_def logged_info)
  show "logged w2 (snd (worker_abort w2))
      = (if emits (log w2) (INFO, ''Worker received SIGABRT signal'')
         then [(INFO, ''Worker received SIGABRT signal'')] else [])"
    by (simp add: worker_abort_def logged_info)
qed

text \<open>A worker whose logger stands at level \<open>INFO\<close> gets one line from each callback.\<close>

theorem C6_worker_lines_witness:
  "\<exists>a b. a \<noteq> b
       \<and> logged \<lparr>log = info_logger\<rparr> (snd (worker_int \<lparr>log = info_logger\<rparr>)) = [a]
       \<and> logged \<lparr>log = info_logger\<rparr> (snd (worker_abort \<lparr>log = info_logger\<rparr>)) = [b]"
proof -
  obtain a b where ne: "a \<noteq> b" and fa: "fst a = INFO" and fb: "fst b = INFO"
    and la: "logged \<lparr>log = info_logger\<rparr> (snd (worker_int \<lparr>log = info_logger\<rparr>))
        = (if emits (log \<lparr>log = info_logger\<rparr>) a then [a] else [])"
    and lb: "logged \<lparr>log = info_logger\<rparr> (snd (worker_abort \<lparr>log = info_logger\<rparr>))
        = (if emits (log \<lparr>log = info_logger\<rparr>) b then [b] else [])"
    using C6_worker_lines [of "\<lparr>log = info_logger\<rparr>" "\<lparr>log = info_logger\<rparr>"] by auto
  have "emits (log \<lparr>log = info_logger\<rparr>) a" and "emits (log \<lparr>log = info_logger\<rparr>) b"
    using fa fb by (simp_all add: emits_info_logger)
  with la lb have "logged \<lparr>log = info_logger\<rparr> (snd (worker_int \<lparr>log = info_logger\<rparr>)) = [a]"
    and "logged \<lparr>log = info_logger\<rparr> (snd (worker_abort \<lparr>log = info_logger\<rparr>)) = [b]"
    by simp_all
  with ne show ?thesis by (intro exI conjI)
qed

text \<open>
  Claim C9. Each of the three callbacks returns \<^verbatim>\<open>None\<close>; it changes nothing of its
  argument but the logger, whose earlier lines stay; and it keeps no state: called again
  on the object it has just been called on, it adds again what it added before. The
  logger's \<^verbatim>\<open>info\<close> makes a line or leaves the logger as it is, so a callback has no
  error to raise.
\<close>

theorem C9_hooks_return_none:
  "fst (when_ready x) = PyNone \<and> fst (worker_int x) = PyNone \<and> fst (worker_abort x) = PyNone
   \<and> py_object.more (snd (when_ready x)) = py_object.more x
   \<and> py_object.more (snd (worker_int x)) = py_object.more x
   \<and> py_object.more (snd (worker_abort x)) = py_object.more x
   \<and> take (length (lines (log x))) (lines (log (snd (when_ready x)))) = lines (log x)
   \<and> take (length (lines (log x))) (lines (log (snd (worker_int x)))) = lines (log x)
   \<and> take (length (lines (log x))) (lines (log (snd (worker_abort x)))) = lines (log x)
   \<and> logged (snd (when_ready x)) (snd (when_ready (snd (when_ready x))))
       = logged x (snd (when_ready x))
   \<and> logged (snd (worker_int x)) (snd (worker_int (snd (worker_int x))))
       = logged x (snd (worker_int x))
   \<and> logged (snd (worker_abort x)) (snd (worker_abort (snd (worker_abort x))))
       = logged x (snd (worker_abort x))"
  by (simp add: when_ready_def worker_int_def worker_abort_def logged_def lines_info
      emits_info)

text \<open>
  Claim C10. The string a callback passes to the logger does not depend on its argument:
  for each callback there is one string that it passes to \<^verbatim>\<open>info\<close> whatever object it
  is given, also for two objects of different kinds, and the line added is made of that
  string alone.
\<close>

theorem C10_message_independent:
  "(\<exists>m. (\<forall>s :: 'a py_object_scheme.
            snd (when_ready s) = s\<lparr>log := info (log s) m\<rparr>
            \<and> logged s (snd (when_ready s))
                = (if emits (log s) (INFO, m) then [(INFO, m)] else []))
       \<and> (\<forall>s :: 'b py_object_scheme.
            snd (when_ready s) = s\<lparr>log := info (log s) m\<rparr>
            \<and> logged s (snd (when_ready s))
                = (if emits (log s) (INFO, m) then [(INFO, m)] else [])))
   \<and> (\<exists>m. (\<forall>w :: 'a py_object_scheme.
            snd (worker_int w) = w\<lparr>log := info (log w) m\<rparr>
            \<and> logged w (snd (worker_int w))
                = (if emits (log w) (INFO, m) then [(INFO, m)] else []))
       \<and> (\<forall>w :: 'b py_object_scheme.
            snd (worker_int w) = w\<lparr>log := info (log w) m\<rparr>
            \<and> logged w (snd (worker_int w))
                = (if emits (log w) (INFO, m) then [(INFO, m)] else [])))
   \<and> (\<exists>m. (\<forall>w :: 'a py_object_scheme.
            snd (worker_abort w) = w\<lparr>log := info (log w) m\<rparr>
            \<and> logged w (snd (worker_abort w))
                = (if emits (log w) (INFO, m) then [(INFO, m)] else []))
       \<and> (\<forall>w :: 'b py_object_scheme.
            snd (worker_abort w) = w\<lparr>log := info (log w) m\<rparr>
            \<and> logged w (snd (worker_abort w))
                = (if emits (log w) (INFO, m) then [(INFO, m)] else [])))"
proof (intro conjI)
  show "\<exists>m. (\<forall>s :: 'a py_object_scheme.
            snd (when_ready s) = s\<lparr>log := info (log s) m\<rparr>
            \<and> logged s (snd (when_ready s))
                = (if emits (log s) (INFO, m) then [(INFO, m)] else []))
       \<and> (\<forall>s :: 'b py_object_scheme.
            snd (when_ready s) = s\<lparr>log := info (log s) m\<rparr>
            \<and> logged s (snd (when_ready s))
                = (if emits (log s) (INFO, m) then [(INFO, m)] else []))"
    by (rule exI [of _ "''FastFood Ordering System is ready to serve requests''"])
       (simp add: when_ready_def logged_info)
  show "\<exists>m. (\<forall>w :: 'a py_object_scheme.
            snd (worker_int w) = w\<lparr>log := info (log w) m\<rparr>
            \<and> logged w (snd (worker_int w))
                = (if emits (log w) (INFO, m) then [(INFO, m)] else []))
       \<and> (\<forall>w :: 'b py_object_scheme.
            snd (worker_int w) = w\<lparr>log := info (log w) m\<rparr>
            \<and> logged w (snd (worker_int w))
                = (if emits (log w) (INFO, m) then [(INFO, m)] else []))"
    by (rule exI [of _ "''Worker received INT or QUIT signal''"])
       (simp add: worker_int_def logged_info)
  show "\<exists>m. (\<forall>w :: 'a py_object_scheme.
            snd (worker_abort w) = w\<lparr>log := info (log w) m\<rparr>
            \<and> logged w (snd (worker_abort w))
                = (if emits (log w) (INFO, m) then [(INFO, m)] else []))
       \<and> (\<forall>w :: 'b py_object_scheme.
            snd (worker_abort w) = w\<lparr>log := info (log w) m\<rparr>
            \<and> logged w (snd (worker_abort w))
                = (if emits (log w) (INFO, m) then [(INFO, m)] else []))"
    by (rule exI [of _ "''Worker received SIGABRT signal''"])
       (simp add: worker_abort_def logged_info)
qed

end
